theory Spec2Isabelle
  imports Main "HOL-Library.Word"
begin

unbundle bit_operations_syntax

section \<open>Type-load level holder of clrhost.cpp\<close>

text \<open>
  The development embeds \<^verbatim>\<open>LoadsTypeHolder::LoadsTypeHolder\<close> and
  \<^verbatim>\<open>LoadsTypeHolder::~LoadsTypeHolder\<close> of
  \<^verbatim>\<open>src/coreclr/utilcode/clrhost.cpp\<close> (lines 129-198).  The declarations
  these two functions use (\<^verbatim>\<open>ClrDebugState\<close>, \<^verbatim>\<open>ContractStackRecord\<close>,
  the \<^verbatim>\<open>Contract\<close> constants, \<^verbatim>\<open>CONTRACT_ASSERT\<close>) live in
  \<^verbatim>\<open>contract.h\<close>; constants are parameters of the model, and the accessors
  follow the data model of the specification.
\<close>

subsection \<open>Data\<close>

text \<open>\<^verbatim>\<open>UINT\<close> is an unsigned 32-bit integer; \<^verbatim>\<open>BOOL\<close> is a 32-bit integer
  that C++ tests against zero; \<^verbatim>\<open>int lineNum\<close> is only stored, never computed
  with.  A pointer to a \<^verbatim>\<open>ClrDebugState\<close> is an optional address (\<open>None\<close> is
  \<^verbatim>\<open>NULL\<close>).\<close>

type_synonym UINT = "32 word"
type_synonym BOOL = "32 word"
type_synonym addr = nat

text \<open>A \<^verbatim>\<open>ContractStackRecord\<close> with the six fields the constructor assigns
  (lines 171-176).  Records are never modified once linked, so the pointer
  \<^verbatim>\<open>m_pNext\<close> is represented by the record it points to (\<open>None\<close> is the end of
  the chain).\<close>

datatype ContractStackRecord =
  ContractStackRecord
    (m_szFunction: string)
    (m_szFile: string)
    (m_lineNum: "32 word")
    (m_testmask: UINT)
    (m_construct: string)
    (m_pNext: "ContractStackRecord option")

text \<open>Modelled from the spec: the declaration of \<^verbatim>\<open>ClrDebugState\<close> is in contract.h,
  which is not among the sources.  Section 3 of the specification gives the per-thread
  record three components: the maximum load level, the mask of suppressed violations and
  the head of the trace chain.  The width of the mask is left open (type variable \<open>'w\<close>),
  and whatever further fields the structure has are the record's extension \<open>'z\<close>.\<close>

record (overloaded) ('w) ClrDebugState =
  m_violationmask :: "'w word"
  m_MaxLoadTypeLevel :: UINT
  m_pContractStackTrace :: "ContractStackRecord option"

text \<open>Modelled from the spec: \<^verbatim>\<open>ClrDebugState::GetMaxLoadTypeLevel\<close> is declared in
  contract.h; section 3 makes the level a component that is read as it is.\<close>

definition GetMaxLoadTypeLevel :: "('w::len, 'z) ClrDebugState_scheme \<Rightarrow> UINT" where
  "GetMaxLoadTypeLevel s = m_MaxLoadTypeLevel s"

text \<open>Modelled from the spec: \<^verbatim>\<open>ClrDebugState::SetMaxLoadTypeLevel\<close> is declared in
  contract.h; step 5 of the construction algorithm (section 4.2) installs the new level
  with it.\<close>

definition SetMaxLoadTypeLevel ::
  "UINT \<Rightarrow> ('w::len, 'z) ClrDebugState_scheme \<Rightarrow> ('w, 'z) ClrDebugState_scheme" where
  "SetMaxLoadTypeLevel newLevel s = s\<lparr>m_MaxLoadTypeLevel := newLevel\<rparr>"

text \<open>Modelled from the spec: \<^verbatim>\<open>ClrDebugState::ViolationMask\<close> is declared in
  contract.h; section 3 makes the mask of suppressed violations a component that is read
  as it is.\<close>

definition ViolationMask :: "('w::len, 'z) ClrDebugState_scheme \<Rightarrow> 'w word" where
  "ViolationMask s = m_violationmask s"

text \<open>Modelled from the spec: \<^verbatim>\<open>ClrDebugState::ViolationMaskReset\<close> is declared in
  contract.h; \<open>reset_violation(kind)\<close> of section 4.1 clears the flags of its argument
  and leaves the others.\<close>

definition ViolationMaskReset ::
  "'w word \<Rightarrow> ('w::len, 'z) ClrDebugState_scheme \<Rightarrow> ('w, 'z) ClrDebugState_scheme" where
  "ViolationMaskReset v s = s\<lparr>m_violationmask := m_violationmask s AND NOT v\<rparr>"

text \<open>Modelled from the spec: \<^verbatim>\<open>ClrDebugState::GetContractStackTrace\<close> is declared in
  contract.h; section 3 makes the head of the trace chain a component that is read as it
  is.\<close>

definition GetContractStackTrace ::
  "('w::len, 'z) ClrDebugState_scheme \<Rightarrow> ContractStackRecord option" where
  "GetContractStackTrace s = m_pContractStackTrace s"

text \<open>Modelled from the spec: \<^verbatim>\<open>ClrDebugState::SetContractStackTrace\<close> is declared in
  contract.h; step 6 of the construction algorithm (section 4.2) makes the new record the
  head with it.\<close>

definition SetContractStackTrace ::
  "ContractStackRecord option \<Rightarrow> ('w::len, 'z) ClrDebugState_scheme
     \<Rightarrow> ('w, 'z) ClrDebugState_scheme" where
  "SetContractStackTrace r s = s\<lparr>m_pContractStackTrace := r\<rparr>"

text \<open>The constants of contract.h that the constructor mentions.  Their values are not
  among the sources, so they are parameters of the model: the two violation bits (of the
  mask's width), and the shift, mask and \<^verbatim>\<open>ALL_Disabled\<close> pattern of the
  \<^verbatim>\<open>Contract\<close> test mask.\<close>

record (overloaded) ('w) contract_h =
  LoadsTypeViolation :: "'w word"
  BadDebugState :: "'w word"
  LOADS_TYPE_Shift :: nat
  LOADS_TYPE_Mask :: UINT
  ALL_Disabled :: UINT

text \<open>The calling thread: its pointer to its \<^verbatim>\<open>ClrDebugState\<close> (\<open>None\<close> while
  the state has not been set up) and the memory holding \<^verbatim>\<open>ClrDebugState\<close> objects.
  Every address holds an object: the validity of a pointer other than null is not
  tracked.\<close>

record (overloaded) ('w, 'z) thread =
  t_pClrDebugState :: "addr option"
  mem :: "addr \<Rightarrow> ('w, 'z) ClrDebugState_scheme"

text \<open>Modelled from the spec: \<^verbatim>\<open>CheckClrDebugState\<close> is declared in contract.h.  It
  yields the calling thread's state (section 4.1, \<open>current()\<close>); the assertion on line 147
  and the comment on line 119 show that the pointer is null when no state has been set up,
  so the model returns the thread's pointer and creates nothing.\<close>

definition CheckClrDebugState :: "('w::len, 'z) thread \<Rightarrow> addr option" where
  "CheckClrDebugState t = t_pClrDebugState t"

text \<open>Modelled from the spec: \<^verbatim>\<open>CONTRACT_ASSERT\<close> is a macro of contract.h.  Sections 6
  and 7 describe it as a synchronous report to the environment, after which construction
  goes on; a report is the tuple of the macro's six arguments.\<close>

record contract_violation =
  cv_elaboration :: string
  cv_testmask :: UINT
  cv_mask :: UINT
  cv_szFunction :: string
  cv_szFile :: string
  cv_lineNum :: "32 word"

definition CONTRACT_ASSERT ::
  "string \<Rightarrow> UINT \<Rightarrow> UINT \<Rightarrow> string \<Rightarrow> string \<Rightarrow> 32 word \<Rightarrow> contract_violation list" where
  "CONTRACT_ASSERT szElaboration dwTestmask dwMask szFunction szFile lineNum =
     [\<lparr>cv_elaboration = szElaboration, cv_testmask = dwTestmask, cv_mask = dwMask,
       cv_szFunction = szFunction, cv_szFile = szFile, cv_lineNum = lineNum\<rparr>]"

text \<open>The four members of \<^verbatim>\<open>LoadsTypeHolder\<close> that the two functions touch.\<close>

record (overloaded) ('w, 'z) LoadsTypeHolder =
  m_fConditional :: BOOL
  m_pClrDebugState :: "addr option"
  m_oldClrDebugState :: "('w, 'z) ClrDebugState_scheme"
  m_contractStackRecord :: ContractStackRecord

datatype error = AssertionFailed | NullDereference | NoLiveHolder

subsection \<open>Constructor and destructor\<close>

text \<open>\<^verbatim>\<open>LoadsTypeHolder::LoadsTypeHolder\<close> (lines 129-181).  \<open>self\<close> is the
  holder's storage before construction; the result is the constructed holder, the thread
  afterwards and the violations reported.  A failed \<^verbatim>\<open>_ASSERTE\<close> (line 147) ends
  construction with \<open>AssertionFailed\<close>.\<close>

definition LoadsTypeHolder_ctor ::
  "('w::len) contract_h \<Rightarrow> ('w, 'z) LoadsTypeHolder \<Rightarrow> BOOL \<Rightarrow> UINT \<Rightarrow> BOOL \<Rightarrow> string \<Rightarrow> string
     \<Rightarrow> 32 word \<Rightarrow> ('w, 'z) thread
     \<Rightarrow> error + (('w, 'z) LoadsTypeHolder \<times> ('w, 'z) thread \<times> contract_violation list)" where
  "LoadsTypeHolder_ctor K self fConditional newLevel fEnforceLevelChangeDirection
       szFunction szFile lineNum t =
    (let self1 = self\<lparr>m_fConditional := fConditional\<rparr> in
     if m_fConditional self1 \<noteq> 0 then
       (let self2 = self1\<lparr>m_pClrDebugState := CheckClrDebugState t\<rparr> in
        case m_pClrDebugState self2 of
          None \<Rightarrow> Inl AssertionFailed
        | Some p \<Rightarrow>
           (let self3 = self2\<lparr>m_oldClrDebugState := mem t p\<rparr>;
                s0 = mem t p;
                reports =
                  (if fEnforceLevelChangeDirection \<noteq> 0 then
                     if newLevel > GetMaxLoadTypeLevel s0 then
                       if (LoadsTypeViolation K OR BadDebugState K) AND ViolationMask s0 = 0 then
                         CONTRACT_ASSERT
                           ''Illegal attempt to load a type beyond the current level limit.''
                           (push_bit (LOADS_TYPE_Shift K) (GetMaxLoadTypeLevel s0 + 1))
                           (LOADS_TYPE_Mask K) szFunction szFile lineNum
                       else []
                     else []
                   else []);
                s1 = ViolationMaskReset (LoadsTypeViolation K) s0;
                s2 = SetMaxLoadTypeLevel newLevel s1;
                r = ContractStackRecord szFunction szFile lineNum
                      ((ALL_Disabled K AND NOT (LOADS_TYPE_Mask K))
                         OR push_bit (LOADS_TYPE_Shift K) (newLevel + 1))
                      (if fEnforceLevelChangeDirection \<noteq> 0 then ''TRIGGERS_TYPE_LOAD''
                       else ''OVERRIDE_TYPE_LOAD_LEVEL_LIMIT'')
                      (GetContractStackTrace s2);
                self4 = self3\<lparr>m_contractStackRecord := r\<rparr>;
                s3 = SetContractStackTrace (Some r) s2
            in Inr (self4, t\<lparr>mem := (mem t)(p := s3)\<rparr>, reports)))
     else Inr (self1, t, []))"

text \<open>\<^verbatim>\<open>LoadsTypeHolder::~LoadsTypeHolder\<close> (lines 186-198): an active holder writes
  its saved copy back through the pointer it kept.\<close>

definition LoadsTypeHolder_dtor ::
  "('w::len, 'z) LoadsTypeHolder \<Rightarrow> ('w, 'z) thread \<Rightarrow> error + ('w, 'z) thread" where
  "LoadsTypeHolder_dtor self t =
    (if m_fConditional self \<noteq> 0 then
       (case m_pClrDebugState self of
          None \<Rightarrow> Inl NullDereference
        | Some p \<Rightarrow> Inr (t\<lparr>mem := (mem t)(p := m_oldClrDebugState self)\<rparr>))
     else Inr t)"

subsection \<open>Scopes, nesting and the trace chain\<close>

text \<open>The chain of records reachable from a head pointer through \<^verbatim>\<open>m_pNext\<close>,
  innermost first.\<close>

fun chain_from :: "ContractStackRecord \<Rightarrow> ContractStackRecord list" where
  "chain_from (ContractStackRecord f fl l m c nxt) =
     ContractStackRecord f fl l m c nxt # (case nxt of None \<Rightarrow> [] | Some r \<Rightarrow> chain_from r)"

definition trace_chain :: "ContractStackRecord option \<Rightarrow> ContractStackRecord list" where
  "trace_chain pHead = (case pHead of None \<Rightarrow> [] | Some r \<Rightarrow> chain_from r)"

text \<open>A C++ block that declares a \<^verbatim>\<open>LoadsTypeHolder\<close> and then runs \<open>body\<close>.
  The body may change the thread in any way and leaves the block either normally or by a
  propagating failure; the language runs the holder's destructor in both cases.\<close>

datatype scope_exit = ExitsNormally | ExitsByFailure

definition LoadsTypeHolder_scope ::
  "('w::len) contract_h \<Rightarrow> ('w, 'z) LoadsTypeHolder \<Rightarrow> BOOL \<Rightarrow> UINT \<Rightarrow> BOOL \<Rightarrow> string \<Rightarrow> string
     \<Rightarrow> 32 word \<Rightarrow> (('w, 'z) thread \<Rightarrow> scope_exit \<times> ('w, 'z) thread) \<Rightarrow> ('w, 'z) thread
     \<Rightarrow> error + (scope_exit \<times> ('w, 'z) thread \<times> contract_violation list)" where
  "LoadsTypeHolder_scope K self fConditional newLevel fEnforceLevelChangeDirection
       szFunction szFile lineNum body t =
    (case LoadsTypeHolder_ctor K self fConditional newLevel fEnforceLevelChangeDirection
            szFunction szFile lineNum t of
       Inl e \<Rightarrow> Inl e
     | Inr (h, t1, reports) \<Rightarrow>
        (case body t1 of
           (how, t2) \<Rightarrow>
             (case LoadsTypeHolder_dtor h t2 of
                Inl e \<Rightarrow> Inl e
              | Inr t3 \<Rightarrow> Inr (how, t3, reports))))"

text \<open>Sequences of constructions and destructions on one thread.  \<open>Construct\<close> carries
  the holder's storage and the constructor's arguments; \<open>Destruct\<close> destroys the most
  recently constructed holder that is still alive, as leaving a C++ scope does.  The
  configuration is the thread together with the live holders, innermost first.\<close>

datatype 'h event =
    Construct 'h BOOL UINT BOOL string string "32 word"
  | Destruct

fun run ::
  "('w::len) contract_h \<Rightarrow> ('w, 'z) LoadsTypeHolder event list
     \<Rightarrow> ('w, 'z) thread \<times> ('w, 'z) LoadsTypeHolder list
     \<Rightarrow> error + (('w, 'z) thread \<times> ('w, 'z) LoadsTypeHolder list)" where
  "run K [] c = Inr c"
| "run K (Construct self fc lvl fe fn fl ln # es) (t, live) =
     (case LoadsTypeHolder_ctor K self fc lvl fe fn fl ln t of
        Inl e \<Rightarrow> Inl e
      | Inr (h, t', reports) \<Rightarrow> run K es (t', h # live))"
| "run K (Destruct # es) (t, []) = Inl NoLiveHolder"
| "run K (Destruct # es) (t, h # live) =
     (case LoadsTypeHolder_dtor h t of
        Inl e \<Rightarrow> Inl e
      | Inr t' \<Rightarrow> run K es (t', live))"

text \<open>Stack discipline: with \<open>d\<close> holders alive, no \<open>Destruct\<close> of the sequence finds
  the stack of live holders empty.\<close>

fun lifo :: "nat \<Rightarrow> 'h event list \<Rightarrow> bool" where
  "lifo d [] = True"
| "lifo d (Construct self fc lvl fe fn fl ln # es) = lifo (Suc d) es"
| "lifo 0 (Destruct # es) = False"
| "lifo (Suc d) (Destruct # es) = lifo d es"

text \<open>What the specification expects, read off the events alone.  \<open>live_guards\<close> is the
  stack of guards still alive after a sequence, innermost first, each as the pair of its
  \<open>fConditional\<close> and \<open>newLevel\<close> arguments; \<open>expected_level\<close> is the level of the
  innermost live guard that is active, and the thread's initial level \<open>d\<close> when there is
  none.\<close>

fun live_guards :: "'h event list \<Rightarrow> (BOOL \<times> UINT) list \<Rightarrow> (BOOL \<times> UINT) list" where
  "live_guards [] gs = gs"
| "live_guards (Construct self fc lvl fe fn fl ln # es) gs = live_guards es ((fc, lvl) # gs)"
| "live_guards (Destruct # es) gs = live_guards es (tl gs)"

fun expected_level :: "UINT \<Rightarrow> (BOOL \<times> UINT) list \<Rightarrow> UINT" where
  "expected_level d [] = d"
| "expected_level d ((fc, lvl) # gs) = (if fc \<noteq> 0 then lvl else expected_level d gs)"

text \<open>The invariant that links the live holders to the guards of the specification: each
  holder carries its guard's flag, and an active holder points at the thread's state and
  has saved the level expected beneath it.\<close>

fun live_ok ::
  "addr \<Rightarrow> UINT \<Rightarrow> ('w::len, 'z) LoadsTypeHolder list \<Rightarrow> (BOOL \<times> UINT) list \<Rightarrow> bool" where
  "live_ok p d [] [] = True"
| "live_ok p d (h # hs) ((fc, lvl) # gs) =
     (m_fConditional h = fc
      \<and> (if fc \<noteq> 0
         then m_pClrDebugState h = Some p
              \<and> GetMaxLoadTypeLevel (m_oldClrDebugState h) = expected_level d gs
         else True)
      \<and> live_ok p d hs gs)"
| "live_ok p d [] (g # gs) = False"
| "live_ok p d (h # hs) [] = False"

subsection \<open>Sample data\<close>

text \<open>Concrete values at which the theorems below are instantiated: a 64-bit violation
  mask, two distinct violation bits, a four-bit \<^verbatim>\<open>LOADS_TYPE\<close> field at bit 20, a
  thread whose state lives at address 0 with an empty trace chain, and arbitrary bytes as
  the storage of a holder that has not been constructed yet.\<close>

definition sample_contract_h :: "64 contract_h" where
  "sample_contract_h =
     \<lparr>LoadsTypeViolation = 0x40, BadDebugState = 0x80000, LOADS_TYPE_Shift = 20,
      LOADS_TYPE_Mask = 0xF00000, ALL_Disabled = 0xAAAAA\<rparr>"

definition sample_state :: "UINT \<Rightarrow> 64 word \<Rightarrow> 64 ClrDebugState" where
  "sample_state level vmask =
     \<lparr>m_violationmask = vmask, m_MaxLoadTypeLevel = level, m_pContractStackTrace = None\<rparr>"

definition sample_thread :: "UINT \<Rightarrow> 64 word \<Rightarrow> (64, unit) thread" where
  "sample_thread level vmask =
     \<lparr>t_pClrDebugState = Some 0, mem = (\<lambda>a. sample_state level vmask)\<rparr>"

definition unset_thread :: "(64, unit) thread" where
  "unset_thread = \<lparr>t_pClrDebugState = None, mem = (\<lambda>a. sample_state 0 0)\<rparr>"

definition sample_storage :: "(64, unit) LoadsTypeHolder" where
  "sample_storage =
     \<lparr>m_fConditional = 0xCCCCCCCC, m_pClrDebugState = Some 0xCCCC,
      m_oldClrDebugState = sample_state 0xCCCCCCCC 0xCCCCCCCC,
      m_contractStackRecord = ContractStackRecord [] [] 0 0 [] None\<rparr>"

text \<open>The first scenario of section 8 of the specification: two nested guards, then
  both destroyed.\<close>

definition sample_events :: "(64, unit) LoadsTypeHolder event list" where
  "sample_events =
     [Construct sample_storage 1 3 1 ''LoadA'' ''loader.cpp'' 7,
      Construct sample_storage 1 6 1 ''LoadB'' ''loader.cpp'' 42,
      Destruct,
      Destruct]"

text \<open>A scope body that overwrites the thread's state and leaves by a failure.\<close>

definition sample_body :: "(64, unit) thread \<Rightarrow> scope_exit \<times> (64, unit) thread" where
  "sample_body t = (ExitsByFailure, t\<lparr>mem := (\<lambda>a. sample_state 77 0x40)\<rparr>)"

text \<open>What constructing guard A of that scenario on a thread at level 5 produces: the
  record it pushes, the constructed holder, and the thread inside the guard's scope.\<close>

definition sample_record :: ContractStackRecord where
  "sample_record =
     ContractStackRecord ''LoadA'' ''loader.cpp'' 7 0x4AAAAA ''TRIGGERS_TYPE_LOAD'' None"

definition sample_holder :: "(64, unit) LoadsTypeHolder" where
  "sample_holder =
     \<lparr>m_fConditional = 1, m_pClrDebugState = Some 0,
      m_oldClrDebugState = sample_state 5 0,
      m_contractStackRecord = sample_record\<rparr>"

definition sample_inside :: "(64, unit) thread" where
  "sample_inside =
     \<lparr>t_pClrDebugState = Some 0,
      mem = (\<lambda>a. sample_state 5 0)
              (0 := \<lparr>m_violationmask = 0, m_MaxLoadTypeLevel = 3,
                     m_pContractStackTrace = Some sample_record\<rparr>)\<rparr>"

text \<open>What constructing an override guard at level 15 on a thread at level 5 produces:
  the record it pushes, the constructed holder, and the thread inside the guard's
  scope.\<close>

definition overflow_record :: ContractStackRecord where
  "overflow_record =
     ContractStackRecord ''Root'' ''loader.cpp'' 8 0x10AAAAA
       ''OVERRIDE_TYPE_LOAD_LEVEL_LIMIT'' None"

definition overflow_holder :: "(64, unit) LoadsTypeHolder" where
  "overflow_holder =
     \<lparr>m_fConditional = 1, m_pClrDebugState = Some 0,
      m_oldClrDebugState = sample_state 5 0,
      m_contractStackRecord = overflow_record\<rparr>"

definition overflow_inside :: "(64, unit) thread" where
  "overflow_inside =
     \<lparr>t_pClrDebugState = Some 0,
      mem = (\<lambda>a. sample_state 5 0)
              (0 := \<lparr>m_violationmask = 0, m_MaxLoadTypeLevel = 15,
                     m_pContractStackTrace = Some overflow_record\<rparr>)\<rparr>"

section \<open>Properties\<close>

subsection \<open>Auxiliary facts\<close>

lemma ctor_inactive:
  "LoadsTypeHolder_ctor K self 0 newLevel fE fn fl ln t = Inr (self\<lparr>m_fConditional := 0\<rparr>, t, [])"
  by (simp add: LoadsTypeHolder_ctor_def)

lemma dtor_inactive:
  "m_fConditional h = 0 \<Longrightarrow> LoadsTypeHolder_dtor h t = Inr t"
  by (simp add: LoadsTypeHolder_dtor_def)

lemma ctor_unset_active:
  "fc \<noteq> 0 \<Longrightarrow> CheckClrDebugState t = None \<Longrightarrow>
     LoadsTypeHolder_ctor K self fc newLevel fE fn fl ln t = Inl AssertionFailed"
  by (simp add: LoadsTypeHolder_ctor_def)

lemma ctor_active:
  assumes "fc \<noteq> 0" and "CheckClrDebugState t = Some p"
  shows "\<exists>h t' reports.
           LoadsTypeHolder_ctor K self fc newLevel fE fn fl ln t = Inr (h, t', reports)
         \<and> m_fConditional h = fc
         \<and> m_pClrDebugState h = Some p
         \<and> m_oldClrDebugState h = mem t p
         \<and> t_pClrDebugState t' = t_pClrDebugState t
         \<and> (\<forall>q. q \<noteq> p \<longrightarrow> mem t' q = mem t q)
         \<and> GetMaxLoadTypeLevel (mem t' p) = newLevel
         \<and> ViolationMask (mem t' p) = ViolationMask (mem t p) AND NOT (LoadsTypeViolation K)
         \<and> GetContractStackTrace (mem t' p) = Some (m_contractStackRecord h)
         \<and> m_pNext (m_contractStackRecord h) = GetContractStackTrace (mem t p)"
  using assms
  by (simp add: LoadsTypeHolder_ctor_def Let_def GetMaxLoadTypeLevel_def ViolationMask_def
      GetContractStackTrace_def SetContractStackTrace_def SetMaxLoadTypeLevel_def
      ViolationMaskReset_def)

lemma dtor_active:
  assumes "m_fConditional h \<noteq> 0" and "m_pClrDebugState h = Some p"
  shows "LoadsTypeHolder_dtor h t = Inr (t\<lparr>mem := (mem t)(p := m_oldClrDebugState h)\<rparr>)"
  using assms by (simp add: LoadsTypeHolder_dtor_def)

lemma and_or_eq_0_iff:
  "(a OR b) AND (m :: 'a::len word) = 0 \<longleftrightarrow> a AND m = 0 \<and> b AND m = 0"
  by (simp add: bit.conj_disj_distrib2 or_eq_0_iff)

lemma and_not_disjoint:
  "a AND b = 0 \<Longrightarrow> b AND (m AND NOT a) = b AND (m :: 'a::len word)"
  by (auto simp add: bit_eq_iff bit_simps)

lemma and_and_not_self: "a AND (m AND NOT a) = (0 :: 'a::len word)"
  by (auto simp add: bit_eq_iff bit_simps)

lemma chain_from_unfold: "chain_from r = r # trace_chain (m_pNext r)"
  by (cases r) (simp add: trace_chain_def)

lemma next_not_self: "m_pNext r \<noteq> Some r"
proof
  assume "m_pNext r = Some r"
  with chain_from_unfold [of r] have "chain_from r = r # chain_from r"
    by (simp add: trace_chain_def)
  then show False by simp
qed

lemma take_bit_self_of_bound:
  assumes "unat (x :: 32 word) < 2 ^ k"
  shows "take_bit k x = x"
proof -
  have "unat (take_bit k x) = take_bit k (unat x)"
    by (simp add: unsigned_take_bit_eq)
  also have "\<dots> = unat x"
    using assms by (simp add: take_bit_nat_eq_self)
  finally show ?thesis
    by (simp add: word_unat_eq_iff)
qed

lemma bit_below_bound:
  assumes "unat (x :: 32 word) < 2 ^ k" and "bit x n"
  shows "n < k"
proof -
  from assms(2) have "bit (take_bit k x) n"
    using take_bit_self_of_bound [OF assms(1)] by simp
  then show ?thesis
    by (simp add: bit_simps)
qed

lemma field_decode:
  assumes "unat (x :: 32 word) < 2 ^ k" and "s + k \<le> 32"
  shows "drop_bit s (((a AND NOT (push_bit s (mask k))) OR push_bit s x) AND push_bit s (mask k))
           = x"
proof (rule bit_word_eqI)
  fix n
  assume "n < LENGTH(32)"
  show "bit (drop_bit s (((a AND NOT (push_bit s (mask k))) OR push_bit s x)
                AND push_bit s (mask k))) n = bit x n"
    using bit_below_bound [OF assms(1), of n] assms(2)
    by (auto simp add: bit_simps)
qed

lemma field_outside:
  assumes "unat (x :: 32 word) < 2 ^ k"
  shows "((a AND NOT (push_bit s (mask k))) OR push_bit s x) AND NOT (push_bit s (mask k))
           = a AND NOT (push_bit s (mask k))"
proof (rule bit_word_eqI)
  fix n
  assume "n < LENGTH(32)"
  show "bit (((a AND NOT (push_bit s (mask k))) OR push_bit s x) AND NOT (push_bit s (mask k))) n
          = bit (a AND NOT (push_bit s (mask k))) n"
    using bit_below_bound [OF assms(1), of "n - s"]
    by (auto simp add: bit_simps)
qed

lemma unat_succ_of_bound:
  assumes "k \<le> 32" and "unat (l :: 32 word) + 1 < 2 ^ k"
  shows "unat (l + 1) = unat l + 1"
proof -
  have "(2::nat) ^ k \<le> 2 ^ 32"
    using assms(1) by (intro power_increasing) simp_all
  with assms(2) have "unat l + 1 < 2 ^ 32"
    by simp
  then show ?thesis
    by (simp add: unat_word_ariths)
qed

lemmas ctor_unfold = LoadsTypeHolder_ctor_def Let_def GetMaxLoadTypeLevel_def
  ViolationMask_def GetContractStackTrace_def SetContractStackTrace_def
  SetMaxLoadTypeLevel_def ViolationMaskReset_def CONTRACT_ASSERT_def

lemmas sample_defs = sample_contract_h_def sample_thread_def sample_state_def
  sample_storage_def unset_thread_def

lemma check_sample_thread: "CheckClrDebugState (sample_thread level vmask) = Some 0"
  by (simp add: CheckClrDebugState_def sample_thread_def)

lemma one_not_zero: "(1 :: BOOL) \<noteq> 0"
  by simp

subsection \<open>Violation reports at construction\<close>

text \<open>C1.  An active guard in triggers mode (\<open>fConditional\<close> and
  \<open>fEnforceLevelChangeDirection\<close> non-zero) whose \<open>newLevel\<close> is strictly above the
  thread's current maximum load level reports exactly one violation, unless the suppression
  test of line 155 (\<^verbatim>\<open>LoadsTypeViolation|BadDebugState\<close> against the violation mask
  before construction) finds a bit set, in which case it reports none; in particular it
  reports none when the \<^verbatim>\<open>LoadsTypeViolation\<close> bit was set.  In both cases the
  thread's maximum load level is \<open>newLevel\<close> afterwards.\<close>

theorem triggers_above_limit_reports_once_unless_suppressed:
  assumes "fConditional \<noteq> 0" and "fEnforceLevelChangeDirection \<noteq> 0"
    and "CheckClrDebugState t = Some p"
    and "GetMaxLoadTypeLevel (mem t p) < newLevel"
  shows "\<exists>h t' reports.
      LoadsTypeHolder_ctor K self fConditional newLevel fEnforceLevelChangeDirection
        szFunction szFile lineNum t = Inr (h, t', reports)
    \<and> length reports =
        (if (LoadsTypeViolation K OR BadDebugState K) AND ViolationMask (mem t p) = 0
         then 1 else 0)
    \<and> (LoadsTypeViolation K AND ViolationMask (mem t p) \<noteq> 0 \<longrightarrow> reports = [])
    \<and> GetMaxLoadTypeLevel (mem t' p) = newLevel"
  using assms by (simp add: ctor_unfold and_or_eq_0_iff)

text \<open>The two scenarios of section 8: guard B at level 6 under a limit of 3 with nothing
  suppressed reports once; a guard at level 9 under a limit of 2 with
  \<^verbatim>\<open>LoadsTypeViolation\<close> suppressed reports nothing.  Both install their level.\<close>

theorem triggers_above_limit_witness:
  "(\<exists>h t' reports.
      LoadsTypeHolder_ctor sample_contract_h sample_storage 1 6 1 ''LoadB'' ''loader.cpp'' 42
        (sample_thread 3 0) = Inr (h, t', reports)
    \<and> length reports = 1 \<and> GetMaxLoadTypeLevel (mem t' 0) = 6)
   \<and> (\<exists>h t' reports.
      LoadsTypeHolder_ctor sample_contract_h sample_storage 1 9 1 ''Load'' ''loader.cpp'' 7
        (sample_thread 2 0x40) = Inr (h, t', reports)
    \<and> reports = [] \<and> GetMaxLoadTypeLevel (mem t' 0) = 9)"
proof -
  have c: "GetMaxLoadTypeLevel (mem (sample_thread 3 0) 0) < 6"
    by (simp add: GetMaxLoadTypeLevel_def sample_thread_def sample_state_def)
  have d: "GetMaxLoadTypeLevel (mem (sample_thread 2 0x40) 0) < 9"
    by (simp add: GetMaxLoadTypeLevel_def sample_thread_def sample_state_def)
  have "\<exists>h t' reports.
      LoadsTypeHolder_ctor sample_contract_h sample_storage 1 6 1 ''LoadB'' ''loader.cpp'' 42
        (sample_thread 3 0) = Inr (h, t', reports)
    \<and> length reports = 1 \<and> GetMaxLoadTypeLevel (mem t' 0) = 6"
    using triggers_above_limit_reports_once_unless_suppressed
      [OF one_not_zero one_not_zero check_sample_thread c,
        of sample_contract_h sample_storage "''LoadB''" "''loader.cpp''" 42]
    by (simp add: sample_defs ViolationMask_def)
  moreover have "\<exists>h t' reports.
      LoadsTypeHolder_ctor sample_contract_h sample_storage 1 9 1 ''Load'' ''loader.cpp'' 7
        (sample_thread 2 0x40) = Inr (h, t', reports)
    \<and> reports = [] \<and> GetMaxLoadTypeLevel (mem t' 0) = 9"
    using triggers_above_limit_reports_once_unless_suppressed
      [OF one_not_zero one_not_zero check_sample_thread d,
        of sample_contract_h sample_storage "''Load''" "''loader.cpp''" 7]
    by (simp add: sample_defs ViolationMask_def)
  ultimately show ?thesis by blast
qed

text \<open>C3.  An active guard in triggers mode whose \<open>newLevel\<close> is at most the thread's
  current maximum load level reports no violation, and an active guard in override mode
  (\<open>fEnforceLevelChangeDirection\<close> zero) reports no violation whatever the two levels
  are.\<close>

theorem no_report_below_limit_or_in_override_mode:
  assumes "fConditional \<noteq> 0" and "CheckClrDebugState t = Some p"
    and "fEnforceLevelChangeDirection = 0 \<or> newLevel \<le> GetMaxLoadTypeLevel (mem t p)"
  shows "\<exists>h t'.
      LoadsTypeHolder_ctor K self fConditional newLevel fEnforceLevelChangeDirection
        szFunction szFile lineNum t = Inr (h, t', [])"
  using assms by (auto simp add: ctor_unfold)

text \<open>Guard A of section 8 (level 3 under a limit of 5, triggers mode) and an override
  guard raising the limit from 5 to 9.\<close>

theorem no_report_witness:
  "(\<exists>h t'. LoadsTypeHolder_ctor sample_contract_h sample_storage 1 3 1 ''LoadA'' ''loader.cpp'' 7
        (sample_thread 5 0) = Inr (h, t', []))
   \<and> (\<exists>h t'. LoadsTypeHolder_ctor sample_contract_h sample_storage 1 9 0 ''Root'' ''loader.cpp'' 8
        (sample_thread 5 0) = Inr (h, t', []))"
proof -
  have c: "(1 :: BOOL) = 0 \<or> (3 :: UINT) \<le> GetMaxLoadTypeLevel (mem (sample_thread 5 0) 0)"
    by (simp add: GetMaxLoadTypeLevel_def sample_thread_def sample_state_def)
  have d: "(0 :: BOOL) = 0 \<or> (9 :: UINT) \<le> GetMaxLoadTypeLevel (mem (sample_thread 5 0) 0)"
    by simp
  from no_report_below_limit_or_in_override_mode [OF one_not_zero check_sample_thread c]
    no_report_below_limit_or_in_override_mode [OF one_not_zero check_sample_thread d]
  show ?thesis by blast
qed

text \<open>C9.  The test that withholds the report looks at both the
  \<^verbatim>\<open>LoadsTypeViolation\<close> and the \<^verbatim>\<open>BadDebugState\<close> bits: when either is set
  before construction, an active triggers-mode guard above the limit reports nothing.
  Construction clears the \<^verbatim>\<open>LoadsTypeViolation\<close> bits of the mask and no others, so
  (the two constants being distinct bits) the \<^verbatim>\<open>BadDebugState\<close> bit reads inside the
  guard's scope as it did before.\<close>

theorem suppression_test_reads_both_bits_and_clears_one:
  assumes "fConditional \<noteq> 0" and "fEnforceLevelChangeDirection \<noteq> 0"
    and "CheckClrDebugState t = Some p"
    and "GetMaxLoadTypeLevel (mem t p) < newLevel"
    and "LoadsTypeViolation K AND ViolationMask (mem t p) \<noteq> 0
         \<or> BadDebugState K AND ViolationMask (mem t p) \<noteq> 0"
  shows "\<exists>h t'.
      LoadsTypeHolder_ctor K self fConditional newLevel fEnforceLevelChangeDirection
        szFunction szFile lineNum t = Inr (h, t', [])
    \<and> ViolationMask (mem t' p) = ViolationMask (mem t p) AND NOT (LoadsTypeViolation K)
    \<and> (LoadsTypeViolation K AND BadDebugState K = 0 \<longrightarrow>
          BadDebugState K AND ViolationMask (mem t' p)
            = BadDebugState K AND ViolationMask (mem t p))"
  using assms by (auto simp add: ctor_unfold and_or_eq_0_iff and_not_disjoint)

text \<open>With only \<^verbatim>\<open>BadDebugState\<close> (bit 19) set, a guard at level 9 under a limit of
  2 reports nothing, and the bit is still set inside the scope.\<close>

theorem suppression_test_witness:
  "\<exists>h t'.
      LoadsTypeHolder_ctor sample_contract_h sample_storage 1 9 1 ''Load'' ''loader.cpp'' 7
        (sample_thread 2 0x80000) = Inr (h, t', [])
    \<and> BadDebugState sample_contract_h AND ViolationMask (mem t' 0) = 0x80000"
proof -
  have c: "GetMaxLoadTypeLevel (mem (sample_thread 2 0x80000) 0) < 9"
    by (simp add: GetMaxLoadTypeLevel_def sample_thread_def sample_state_def)
  have d: "LoadsTypeViolation sample_contract_h AND ViolationMask (mem (sample_thread 2 0x80000) 0) \<noteq> 0
         \<or> BadDebugState sample_contract_h AND ViolationMask (mem (sample_thread 2 0x80000) 0) \<noteq> 0"
    by (simp add: sample_defs ViolationMask_def)
  have e: "LoadsTypeViolation sample_contract_h AND BadDebugState sample_contract_h = 0"
    by (simp add: sample_defs)
  have f: "BadDebugState sample_contract_h AND ViolationMask (mem (sample_thread 2 0x80000) 0)
             = 0x80000"
    by (simp add: sample_defs ViolationMask_def)
  from suppression_test_reads_both_bits_and_clears_one
    [OF one_not_zero one_not_zero check_sample_thread c d,
      of sample_storage "''Load''" "''loader.cpp''" 7]
  show ?thesis using e f by auto
qed

subsection \<open>What construction changes\<close>

text \<open>C4.  Constructing an active guard clears the \<^verbatim>\<open>LoadsTypeViolation\<close> flag of the
  thread's violation mask: whatever the mask was before, testing that flag right after
  construction finds it not set.\<close>

theorem ctor_clears_LoadsTypeViolation:
  assumes "fConditional \<noteq> 0" and "CheckClrDebugState t = Some p"
  shows "\<exists>h t' reports.
      LoadsTypeHolder_ctor K self fConditional newLevel fEnforceLevelChangeDirection
        szFunction szFile lineNum t = Inr (h, t', reports)
    \<and> LoadsTypeViolation K AND ViolationMask (mem t' p) = 0"
  using assms by (simp add: ctor_unfold and_and_not_self)

text \<open>The second scenario of section 8: the flag is set before a guard at level 9 is
  constructed, and reads as not set inside.\<close>

theorem ctor_clears_LoadsTypeViolation_witness:
  "LoadsTypeViolation sample_contract_h AND ViolationMask (mem (sample_thread 2 0x40) 0) \<noteq> 0
   \<and> (\<exists>h t' reports.
      LoadsTypeHolder_ctor sample_contract_h sample_storage 1 9 1 ''Load'' ''loader.cpp'' 7
        (sample_thread 2 0x40) = Inr (h, t', reports)
    \<and> LoadsTypeViolation sample_contract_h AND ViolationMask (mem t' 0) = 0)"
proof -
  have c: "LoadsTypeViolation sample_contract_h AND ViolationMask (mem (sample_thread 2 0x40) 0) \<noteq> 0"
    by (simp add: sample_defs ViolationMask_def)
  from c ctor_clears_LoadsTypeViolation [OF one_not_zero check_sample_thread]
  show ?thesis by blast
qed

text \<open>C8, as the specification states it: the mask of the pushed record encodes
  \<open>newLevel + 1\<close> in the \<^verbatim>\<open>LOADS_TYPE\<close> field for every active guard.  With a
  four-bit field at bit 20, an override guard at level 15 pushes a record whose mask is
  \<^verbatim>\<open>0x10AAAAA\<close>: the field reads 0, not 16, and bit 24, outside the field, is set.\<close>

theorem testmask_field_overflow_counterexample:
  "LoadsTypeHolder_ctor sample_contract_h sample_storage 1 15 0 ''Root'' ''loader.cpp'' 8
      (sample_thread 5 0) = Inr (overflow_holder, overflow_inside, [])
   \<and> GetContractStackTrace (mem overflow_inside 0) = Some overflow_record
   \<and> m_testmask overflow_record = 0x10AAAAA
   \<and> drop_bit (LOADS_TYPE_Shift sample_contract_h)
        (m_testmask overflow_record AND LOADS_TYPE_Mask sample_contract_h) = 0
   \<and> drop_bit (LOADS_TYPE_Shift sample_contract_h)
        (m_testmask overflow_record AND LOADS_TYPE_Mask sample_contract_h) \<noteq> 15 + 1
   \<and> m_testmask overflow_record AND NOT (LOADS_TYPE_Mask sample_contract_h)
        \<noteq> ALL_Disabled sample_contract_h AND NOT (LOADS_TYPE_Mask sample_contract_h)"
  by (simp add: sample_defs overflow_holder_def overflow_inside_def overflow_record_def
      ctor_unfold CheckClrDebugState_def)

text \<open>C8, amended.  Constructing an active guard pushes exactly one record on the thread's
  trace chain: the new head is the holder's own record, the chain behind it is the chain
  as it was, its \<^verbatim>\<open>m_pNext\<close> is the previous head, its call-site fields are the
  function, file and line given to the constructor, its label is
  \<^verbatim>\<open>TRIGGERS_TYPE_LOAD\<close> or \<^verbatim>\<open>OVERRIDE_TYPE_LOAD_LEVEL_LIMIT\<close> according to
  \<open>fEnforceLevelChangeDirection\<close>, and its mask is the expression of line 174.  When
  \<open>newLevel + 1\<close> fits the \<^verbatim>\<open>LOADS_TYPE\<close> field (the field being \<open>k\<close> contiguous
  bits at \<^verbatim>\<open>LOADS_TYPE_Shift\<close> inside the 32-bit mask, and \<open>newLevel + 1\<close> below
  \<open>2 ^ k\<close>), the field of the mask read as a number is \<open>newLevel + 1\<close> and the bits
  outside the field are those of \<^verbatim>\<open>ALL_Disabled\<close>.\<close>

theorem ctor_pushes_one_trace_record:
  assumes "fConditional \<noteq> 0" and "CheckClrDebugState t = Some p"
  shows "\<exists>h t' reports r.
      LoadsTypeHolder_ctor K self fConditional newLevel fEnforceLevelChangeDirection
        szFunction szFile lineNum t = Inr (h, t', reports)
    \<and> GetContractStackTrace (mem t' p) = Some r
    \<and> m_contractStackRecord h = r
    \<and> trace_chain (GetContractStackTrace (mem t' p))
        = r # trace_chain (GetContractStackTrace (mem t p))
    \<and> m_pNext r = GetContractStackTrace (mem t p)
    \<and> m_szFunction r = szFunction \<and> m_szFile r = szFile \<and> m_lineNum r = lineNum
    \<and> m_construct r = (if fEnforceLevelChangeDirection \<noteq> 0 then ''TRIGGERS_TYPE_LOAD''
                        else ''OVERRIDE_TYPE_LOAD_LEVEL_LIMIT'')
    \<and> m_testmask r = (ALL_Disabled K AND NOT (LOADS_TYPE_Mask K))
                        OR push_bit (LOADS_TYPE_Shift K) (newLevel + 1)
    \<and> (LOADS_TYPE_Mask K = push_bit (LOADS_TYPE_Shift K) (mask k)
         \<and> LOADS_TYPE_Shift K + k \<le> 32
         \<and> unat newLevel + 1 < 2 ^ k
        \<longrightarrow> unat (drop_bit (LOADS_TYPE_Shift K) (m_testmask r AND LOADS_TYPE_Mask K))
              = unat newLevel + 1
          \<and> m_testmask r AND NOT (LOADS_TYPE_Mask K)
              = ALL_Disabled K AND NOT (LOADS_TYPE_Mask K))"
proof -
  let ?m = "(ALL_Disabled K AND NOT (LOADS_TYPE_Mask K))
              OR push_bit (LOADS_TYPE_Shift K) (newLevel + 1)"
  have fits: "unat (drop_bit (LOADS_TYPE_Shift K) (?m AND LOADS_TYPE_Mask K)) = unat newLevel + 1
              \<and> ?m AND NOT (LOADS_TYPE_Mask K) = ALL_Disabled K AND NOT (LOADS_TYPE_Mask K)"
    if f: "LOADS_TYPE_Mask K = push_bit (LOADS_TYPE_Shift K) (mask k)"
      and s: "LOADS_TYPE_Shift K + k \<le> 32"
      and b: "unat newLevel + 1 < 2 ^ k"
  proof -
    from s have k: "k \<le> 32"
      by simp
    have u: "unat (newLevel + 1) = unat newLevel + 1"
      by (rule unat_succ_of_bound [OF k b])
    with b have x: "unat (newLevel + 1) < 2 ^ k"
      by simp
    from field_decode [OF x s, of "ALL_Disabled K"] field_outside [OF x, of "ALL_Disabled K"] u
    show ?thesis
      by (simp add: f)
  qed
  have "\<exists>h t' reports r.
      LoadsTypeHolder_ctor K self fConditional newLevel fEnforceLevelChangeDirection
        szFunction szFile lineNum t = Inr (h, t', reports)
    \<and> GetContractStackTrace (mem t' p) = Some r
    \<and> m_contractStackRecord h = r
    \<and> trace_chain (GetContractStackTrace (mem t' p))
        = r # trace_chain (GetContractStackTrace (mem t p))
    \<and> m_pNext r = GetContractStackTrace (mem t p)
    \<and> m_szFunction r = szFunction \<and> m_szFile r = szFile \<and> m_lineNum r = lineNum
    \<and> m_construct r = (if fEnforceLevelChangeDirection \<noteq> 0 then ''TRIGGERS_TYPE_LOAD''
                        else ''OVERRIDE_TYPE_LOAD_LEVEL_LIMIT'')
    \<and> m_testmask r = ?m"
    using assms by (simp add: ctor_unfold trace_chain_def)
  with fits show ?thesis
    by metis
qed

text \<open>Guard A at level 3 with the sample constants (a four-bit field at bit 20): the
  record pushed on the empty chain carries 4 in the field and the bits of
  \<^verbatim>\<open>ALL_Disabled\<close> outside it.\<close>

theorem ctor_pushes_one_trace_record_witness:
  "LOADS_TYPE_Mask sample_contract_h = push_bit (LOADS_TYPE_Shift sample_contract_h) (mask 4)
   \<and> (\<exists>h t' reports r.
      LoadsTypeHolder_ctor sample_contract_h sample_storage 1 3 1 ''LoadA'' ''loader.cpp'' 7
        (sample_thread 5 0) = Inr (h, t', reports)
    \<and> GetContractStackTrace (mem t' 0) = Some r
    \<and> trace_chain (GetContractStackTrace (mem t' 0)) = [r]
    \<and> m_construct r = ''TRIGGERS_TYPE_LOAD''
    \<and> unat (drop_bit 20 (m_testmask r AND 0xF00000)) = 4
    \<and> m_testmask r AND NOT 0xF00000 = 0xAAAAA)"
proof -
  have f: "LOADS_TYPE_Mask sample_contract_h
             = push_bit (LOADS_TYPE_Shift sample_contract_h) (mask 4)"
    by (simp add: sample_contract_h_def mask_eq_exp_minus_1 push_bit_eq_mult)
  have s: "LOADS_TYPE_Shift sample_contract_h + 4 \<le> 32"
    by (simp add: sample_contract_h_def)
  have b: "unat (3 :: UINT) + 1 < 2 ^ 4"
    by simp
  have e: "trace_chain (GetContractStackTrace (mem (sample_thread 5 0) 0)) = []"
    by (simp add: trace_chain_def GetContractStackTrace_def sample_thread_def sample_state_def)
  have v: "LOADS_TYPE_Mask sample_contract_h = 0xF00000"
    "LOADS_TYPE_Shift sample_contract_h = 20" "ALL_Disabled sample_contract_h = 0xAAAAA"
    by (simp_all add: sample_contract_h_def)
  from ctor_pushes_one_trace_record [OF one_not_zero check_sample_thread,
      where K = sample_contract_h and self = sample_storage and newLevel = 3
        and fEnforceLevelChangeDirection = 1 and szFunction = "''LoadA''"
        and szFile = "''loader.cpp''" and lineNum = 7 and k = 4
        and level1 = 5 and vmask1 = 0]
  obtain h t' reports r where
    "LoadsTypeHolder_ctor sample_contract_h sample_storage 1 3 1 ''LoadA'' ''loader.cpp'' 7
        (sample_thread 5 0) = Inr (h, t', reports)"
    and "GetContractStackTrace (mem t' 0) = Some r"
    and "trace_chain (GetContractStackTrace (mem t' 0))
           = r # trace_chain (GetContractStackTrace (mem (sample_thread 5 0) 0))"
    and "m_construct r = ''TRIGGERS_TYPE_LOAD''"
    and "unat (drop_bit (LOADS_TYPE_Shift sample_contract_h)
                 (m_testmask r AND LOADS_TYPE_Mask sample_contract_h)) = unat (3 :: UINT) + 1"
    and "m_testmask r AND NOT (LOADS_TYPE_Mask sample_contract_h)
           = ALL_Disabled sample_contract_h AND NOT (LOADS_TYPE_Mask sample_contract_h)"
    using f s b by auto
  then have "LoadsTypeHolder_ctor sample_contract_h sample_storage 1 3 1 ''LoadA'' ''loader.cpp'' 7
        (sample_thread 5 0) = Inr (h, t', reports)
    \<and> GetContractStackTrace (mem t' 0) = Some r
    \<and> trace_chain (GetContractStackTrace (mem t' 0)) = [r]
    \<and> m_construct r = ''TRIGGERS_TYPE_LOAD''
    \<and> unat (drop_bit 20 (m_testmask r AND 0xF00000)) = 4
    \<and> m_testmask r AND NOT 0xF00000 = 0xAAAAA"
    by (simp add: e v)
  with f show ?thesis
    by blast
qed

subsection \<open>Restoration at destruction\<close>

text \<open>C2.  For every active guard on a thread whose state is set up, destruction puts the
  thread's maximum load level and violation mask back to their values just before the
  guard's construction.  This holds whatever the guarded scope did to the thread, for a
  scope left normally as well as for one left by a propagating failure, and whether or
  not construction reported a violation: the destructor applied to any later thread
  restores both values, and a scope with an arbitrary body ends with the body's way of
  leaving, the constructor's reports and both values restored.\<close>

theorem dtor_restores_level_and_mask:
  assumes "fConditional \<noteq> 0" and "CheckClrDebugState t = Some p"
  shows "\<exists>h t1 reports t3.
      LoadsTypeHolder_ctor K self fConditional newLevel fEnforceLevelChangeDirection
        szFunction szFile lineNum t = Inr (h, t1, reports)
    \<and> (\<forall>t2. \<exists>t4. LoadsTypeHolder_dtor h t2 = Inr t4
          \<and> GetMaxLoadTypeLevel (mem t4 p) = GetMaxLoadTypeLevel (mem t p)
          \<and> ViolationMask (mem t4 p) = ViolationMask (mem t p))
    \<and> LoadsTypeHolder_scope K self fConditional newLevel fEnforceLevelChangeDirection
        szFunction szFile lineNum body t = Inr (fst (body t1), t3, reports)
    \<and> GetMaxLoadTypeLevel (mem t3 p) = GetMaxLoadTypeLevel (mem t p)
    \<and> ViolationMask (mem t3 p) = ViolationMask (mem t p)"
proof -
  from ctor_active [OF assms, of K self newLevel fEnforceLevelChangeDirection
      szFunction szFile lineNum]
  obtain h t1 reports where
    c: "LoadsTypeHolder_ctor K self fConditional newLevel fEnforceLevelChangeDirection
          szFunction szFile lineNum t = Inr (h, t1, reports)"
    and h: "m_fConditional h = fConditional" "m_pClrDebugState h = Some p"
      "m_oldClrDebugState h = mem t p"
    by blast
  from h assms(1)
  have d: "LoadsTypeHolder_dtor h t2 = Inr (t2\<lparr>mem := (mem t2)(p := mem t p)\<rparr>)" for t2
    by (simp add: dtor_active)
  obtain how t2 where b: "body t1 = (how, t2)"
    by (cases "body t1")
  have "LoadsTypeHolder_scope K self fConditional newLevel fEnforceLevelChangeDirection
        szFunction szFile lineNum body t
          = Inr (fst (body t1), t2\<lparr>mem := (mem t2)(p := mem t p)\<rparr>, reports)"
    by (simp add: LoadsTypeHolder_scope_def c b d)
  with c d show ?thesis by simp
qed

text \<open>Guard B of section 8 reports a violation; the body then overwrites the thread's
  state and fails; the limit is 3 and the mask empty again afterwards.\<close>

theorem dtor_restores_witness:
  "\<exists>t3 reports.
      LoadsTypeHolder_scope sample_contract_h sample_storage 1 6 1 ''LoadB'' ''loader.cpp'' 42
        sample_body (sample_thread 3 0) = Inr (ExitsByFailure, t3, reports)
    \<and> reports \<noteq> []
    \<and> GetMaxLoadTypeLevel (mem t3 0) = 3
    \<and> ViolationMask (mem t3 0) = 0"
  using dtor_restores_level_and_mask [OF one_not_zero check_sample_thread,
      where K = sample_contract_h and self = sample_storage and newLevel = 6
        and fEnforceLevelChangeDirection = 1 and szFunction = "''LoadB''"
        and szFile = "''loader.cpp''" and lineNum = 42 and body = sample_body
        and level1 = 3 and vmask1 = 0]
  by (auto simp add: sample_defs ctor_unfold LoadsTypeHolder_scope_def sample_body_def
      CheckClrDebugState_def LoadsTypeHolder_dtor_def)

text \<open>C6, as the specification states it: the snapshot holds only the level and the mask,
  and the restore leaves the head of the trace chain as it finds it.  The code does
  otherwise.  After guard A is constructed on a thread with an empty chain, the head is
  the pushed record and the holder's snapshot holds the empty head; the destructor then
  gives back the thread as it was before construction, whose head is empty: the restore
  itself has changed the head.\<close>

theorem restore_leaves_trace_head_counterexample:
  "LoadsTypeHolder_ctor sample_contract_h sample_storage 1 3 1 ''LoadA'' ''loader.cpp'' 7
      (sample_thread 5 0) = Inr (sample_holder, sample_inside, [])
   \<and> GetContractStackTrace (m_oldClrDebugState sample_holder) = None
   \<and> GetContractStackTrace (mem sample_inside 0) = Some sample_record
   \<and> LoadsTypeHolder_dtor sample_holder sample_inside = Inr (sample_thread 5 0)
   \<and> GetContractStackTrace (mem (sample_thread 5 0) 0)
       \<noteq> GetContractStackTrace (mem sample_inside 0)"
  by (auto simp add: sample_defs sample_holder_def sample_inside_def sample_record_def
      ctor_unfold CheckClrDebugState_def LoadsTypeHolder_dtor_def)

text \<open>C6, amended.  The snapshot kept at construction is a copy of the whole
  \<^verbatim>\<open>ClrDebugState\<close>, the head of the trace chain included, and the destructor writes
  the whole copy back: after destruction the thread's state is the state before
  construction, so the head of the trace chain is the previous head again, which is never
  the record that construction pushed.  Nothing else of the thread is written.\<close>

theorem snapshot_and_restore_cover_whole_state:
  assumes "fConditional \<noteq> 0" and "CheckClrDebugState t = Some p"
  shows "\<exists>h t1 reports.
      LoadsTypeHolder_ctor K self fConditional newLevel fEnforceLevelChangeDirection
        szFunction szFile lineNum t = Inr (h, t1, reports)
    \<and> m_oldClrDebugState h = mem t p
    \<and> GetContractStackTrace (mem t1 p) = Some (m_contractStackRecord h)
    \<and> GetContractStackTrace (mem t p) \<noteq> GetContractStackTrace (mem t1 p)
    \<and> LoadsTypeHolder_dtor h u = Inr (u\<lparr>mem := (mem u)(p := mem t p)\<rparr>)
    \<and> LoadsTypeHolder_dtor h t1 = Inr t"
proof -
  from ctor_active [OF assms, of K self newLevel fEnforceLevelChangeDirection
      szFunction szFile lineNum]
  obtain h t1 reports where
    c: "LoadsTypeHolder_ctor K self fConditional newLevel fEnforceLevelChangeDirection
          szFunction szFile lineNum t = Inr (h, t1, reports)"
    and h: "m_fConditional h = fConditional" "m_pClrDebugState h = Some p"
      "m_oldClrDebugState h = mem t p"
    and t1: "t_pClrDebugState t1 = t_pClrDebugState t"
      "\<forall>q. q \<noteq> p \<longrightarrow> mem t1 q = mem t q"
    and r: "GetContractStackTrace (mem t1 p) = Some (m_contractStackRecord h)"
      "m_pNext (m_contractStackRecord h) = GetContractStackTrace (mem t p)"
    by blast
  from h assms(1)
  have d: "LoadsTypeHolder_dtor h t' = Inr (t'\<lparr>mem := (mem t')(p := mem t p)\<rparr>)" for t'
    by (simp add: dtor_active)
  have "(mem t1)(p := mem t p) = mem t"
    using t1(2) by (auto simp add: fun_eq_iff)
  with t1(1) have "t1\<lparr>mem := (mem t1)(p := mem t p)\<rparr> = t"
    by simp
  with d have undone: "LoadsTypeHolder_dtor h t1 = Inr t"
    by simp
  from r next_not_self [of "m_contractStackRecord h"]
  have "GetContractStackTrace (mem t p) \<noteq> GetContractStackTrace (mem t1 p)"
    by simp
  with c h(3) r(1) d undone show ?thesis by blast
qed

text \<open>Guard A again: the snapshot is the whole state at level 5, and destruction gives the
  thread back with its empty chain.\<close>

theorem snapshot_and_restore_witness:
  "\<exists>h t1 reports.
      LoadsTypeHolder_ctor sample_contract_h sample_storage 1 3 1 ''LoadA'' ''loader.cpp'' 7
        (sample_thread 5 0) = Inr (h, t1, reports)
    \<and> m_oldClrDebugState h = sample_state 5 0
    \<and> GetContractStackTrace (mem t1 0) \<noteq> None
    \<and> LoadsTypeHolder_dtor h t1 = Inr (sample_thread 5 0)"
  using snapshot_and_restore_cover_whole_state [OF one_not_zero check_sample_thread,
      where K = sample_contract_h and self = sample_storage and newLevel = 3
        and fEnforceLevelChangeDirection = 1 and szFunction = "''LoadA''"
        and szFile = "''loader.cpp''" and lineNum = 7 and u = unset_thread
        and level1 = 5 and vmask1 = 0]
  by (auto simp add: sample_thread_def)

subsection \<open>Inactive guards\<close>

text \<open>C7.  Whatever \<open>newLevel\<close> and \<open>fEnforceLevelChangeDirection\<close> are, constructing
  a guard with \<open>fConditional\<close> zero returns the thread unchanged and reports nothing,
  and destroying it returns the thread unchanged: maximum load level, violation mask and
  head of the trace chain are what they were.  A scope guarded this way is its body
  alone.\<close>

theorem inactive_guard_changes_nothing:
  "LoadsTypeHolder_ctor K self 0 newLevel fEnforceLevelChangeDirection szFunction szFile lineNum t
     = Inr (self\<lparr>m_fConditional := 0\<rparr>, t, [])
   \<and> LoadsTypeHolder_dtor (self\<lparr>m_fConditional := 0\<rparr>) t = Inr t
   \<and> LoadsTypeHolder_scope K self 0 newLevel fEnforceLevelChangeDirection szFunction szFile
        lineNum body t = Inr (fst (body t), snd (body t), [])"
  by (simp add: ctor_inactive dtor_inactive LoadsTypeHolder_scope_def split: prod.split)

text \<open>An inactive triggers-mode guard at level 9 on a thread at level 2.\<close>

theorem inactive_guard_witness:
  "LoadsTypeHolder_ctor sample_contract_h sample_storage 0 9 1 ''Load'' ''loader.cpp'' 7
      (sample_thread 2 0x40)
     = Inr (sample_storage\<lparr>m_fConditional := 0\<rparr>, sample_thread 2 0x40, [])
   \<and> LoadsTypeHolder_dtor (sample_storage\<lparr>m_fConditional := 0\<rparr>) (sample_thread 2 0x40)
     = Inr (sample_thread 2 0x40)"
  using inactive_guard_changes_nothing
    [of sample_contract_h sample_storage 9 1 "''Load''" "''loader.cpp''" 7 "sample_thread 2 0x40"]
  by simp

text \<open>C10.  A guard with \<open>fConditional\<close> zero does not consult the thread's
  \<^verbatim>\<open>ClrDebugState\<close>: on a thread whose state has never been set up
  (\<^verbatim>\<open>CheckClrDebugState\<close> would return null) construction succeeds, the holder differs
  from its storage in \<open>m_fConditional\<close> only, its pointer and its snapshot being left
  as they were, and destruction succeeds on any thread, leaving it as it is.\<close>

theorem inactive_guard_needs_no_debug_state:
  assumes "CheckClrDebugState t = None"
  shows "LoadsTypeHolder_ctor K self 0 newLevel fEnforceLevelChangeDirection szFunction szFile
           lineNum t = Inr (self\<lparr>m_fConditional := 0\<rparr>, t, [])
   \<and> m_pClrDebugState (self\<lparr>m_fConditional := 0\<rparr>) = m_pClrDebugState self
   \<and> m_oldClrDebugState (self\<lparr>m_fConditional := 0\<rparr>) = m_oldClrDebugState self
   \<and> m_contractStackRecord (self\<lparr>m_fConditional := 0\<rparr>) = m_contractStackRecord self
   \<and> LoadsTypeHolder_dtor (self\<lparr>m_fConditional := 0\<rparr>) t' = Inr t'"
  by (simp add: ctor_inactive dtor_inactive)

text \<open>On the thread without state an inactive guard is constructed and destroyed, where
  an active one fails its assertion.\<close>

theorem inactive_guard_needs_no_debug_state_witness:
  "CheckClrDebugState unset_thread = None
   \<and> LoadsTypeHolder_ctor sample_contract_h sample_storage 0 9 1 ''Load'' ''loader.cpp'' 7
        unset_thread = Inr (sample_storage\<lparr>m_fConditional := 0\<rparr>, unset_thread, [])
   \<and> LoadsTypeHolder_dtor (sample_storage\<lparr>m_fConditional := 0\<rparr>) unset_thread
        = Inr unset_thread
   \<and> LoadsTypeHolder_ctor sample_contract_h sample_storage 1 9 1 ''Load'' ''loader.cpp'' 7
        unset_thread = Inl AssertionFailed"
proof -
  have a: "CheckClrDebugState unset_thread = None"
    by (simp add: CheckClrDebugState_def unset_thread_def)
  from inactive_guard_needs_no_debug_state [OF a,
      of sample_contract_h sample_storage 9 1 "''Load''" "''loader.cpp''" 7 unset_thread]
    ctor_unset_active [OF one_not_zero a] a
  show ?thesis by simp
qed

subsection \<open>Nested guards\<close>

lemma lifo_take: "lifo d evs \<Longrightarrow> lifo d (take n evs)"
proof (induction evs arbitrary: d n)
  case Nil
  then show ?case by simp
next
  case (Cons e es)
  show ?case
  proof (cases n)
    case 0
    then show ?thesis by simp
  next
    case (Suc m)
    show ?thesis
    proof (cases e)
      case (Construct self fc lvl fe fn fl ln)
      with Cons Suc show ?thesis by simp
    next
      case Destruct
      with Cons Suc show ?thesis by (cases d) simp_all
    qed
  qed
qed

lemma run_level:
  assumes "CheckClrDebugState t = Some p"
    and "live_ok p d live gs"
    and "GetMaxLoadTypeLevel (mem t p) = expected_level d gs"
    and "lifo (length live) evs"
  shows "\<exists>t' live'. run K evs (t, live) = Inr (t', live')
           \<and> CheckClrDebugState t' = Some p
           \<and> live_ok p d live' (live_guards evs gs)
           \<and> GetMaxLoadTypeLevel (mem t' p) = expected_level d (live_guards evs gs)"
  using assms
proof (induction evs arbitrary: t live gs)
  case Nil
  then show ?case by simp
next
  case (Cons e es)
  show ?case
  proof (cases e)
    case (Construct self fc lvl fe fn fl ln)
    show ?thesis
    proof (cases "fc = 0")
      case True
      let ?h = "self\<lparr>m_fConditional := 0\<rparr>"
      have "live_ok p d (?h # live) ((fc, lvl) # gs)"
        using Cons.prems True by simp
      moreover have "GetMaxLoadTypeLevel (mem t p) = expected_level d ((fc, lvl) # gs)"
        using Cons.prems True by simp
      moreover have "lifo (length (?h # live)) es"
        using Cons.prems Construct by simp
      ultimately have "\<exists>t' live'. run K es (t, ?h # live) = Inr (t', live')
           \<and> CheckClrDebugState t' = Some p
           \<and> live_ok p d live' (live_guards es ((fc, lvl) # gs))
           \<and> GetMaxLoadTypeLevel (mem t' p) = expected_level d (live_guards es ((fc, lvl) # gs))"
        using Cons.IH Cons.prems(1) by blast
      then show ?thesis
        using Construct True by (simp add: ctor_inactive)
    next
      case False
      from ctor_active [OF False Cons.prems(1), of K self lvl fe fn fl ln]
      obtain h t1 reports where
        c: "LoadsTypeHolder_ctor K self fc lvl fe fn fl ln t = Inr (h, t1, reports)"
        and h: "m_fConditional h = fc" "m_pClrDebugState h = Some p"
          "m_oldClrDebugState h = mem t p"
        and t1: "t_pClrDebugState t1 = t_pClrDebugState t"
          "GetMaxLoadTypeLevel (mem t1 p) = lvl"
        by blast
      have "CheckClrDebugState t1 = Some p"
        using t1 Cons.prems(1) by (simp add: CheckClrDebugState_def)
      moreover have "live_ok p d (h # live) ((fc, lvl) # gs)"
        using Cons.prems h False by simp
      moreover have "GetMaxLoadTypeLevel (mem t1 p) = expected_level d ((fc, lvl) # gs)"
        using t1 False by simp
      moreover have "lifo (length (h # live)) es"
        using Cons.prems Construct by simp
      ultimately have "\<exists>t' live'. run K es (t1, h # live) = Inr (t', live')
           \<and> CheckClrDebugState t' = Some p
           \<and> live_ok p d live' (live_guards es ((fc, lvl) # gs))
           \<and> GetMaxLoadTypeLevel (mem t' p) = expected_level d (live_guards es ((fc, lvl) # gs))"
        using Cons.IH by blast
      then show ?thesis
        using Construct c by simp
    qed
  next
    case Destruct
    with Cons.prems obtain h rest where live: "live = h # rest"
      by (cases live) auto
    with Cons.prems obtain fc lvl gs' where gs: "gs = (fc, lvl) # gs'"
      by (cases gs) auto
    from Cons.prems live gs have fc: "m_fConditional h = fc" and rest: "live_ok p d rest gs'"
      by simp_all
    have l: "lifo (length rest) es"
      using Cons.prems live Destruct by simp
    show ?thesis
    proof (cases "fc = 0")
      case True
      have "GetMaxLoadTypeLevel (mem t p) = expected_level d gs'"
        using Cons.prems gs True by simp
      with rest l have "\<exists>t' live'. run K es (t, rest) = Inr (t', live')
           \<and> CheckClrDebugState t' = Some p
           \<and> live_ok p d live' (live_guards es gs')
           \<and> GetMaxLoadTypeLevel (mem t' p) = expected_level d (live_guards es gs')"
        using Cons.IH Cons.prems(1) by blast
      then show ?thesis
        using Destruct live gs True fc by (simp add: dtor_inactive)
    next
      case False
      from Cons.prems live gs False have h: "m_pClrDebugState h = Some p"
        "GetMaxLoadTypeLevel (m_oldClrDebugState h) = expected_level d gs'"
        by simp_all
      let ?t1 = "t\<lparr>mem := (mem t)(p := m_oldClrDebugState h)\<rparr>"
      have d: "LoadsTypeHolder_dtor h t = Inr ?t1"
        using False fc h by (simp add: dtor_active)
      have "CheckClrDebugState ?t1 = Some p"
        using Cons.prems(1) by (simp add: CheckClrDebugState_def)
      moreover have "GetMaxLoadTypeLevel (mem ?t1 p) = expected_level d gs'"
        using h by simp
      ultimately have "\<exists>t' live'. run K es (?t1, rest) = Inr (t', live')
           \<and> CheckClrDebugState t' = Some p
           \<and> live_ok p d live' (live_guards es gs')
           \<and> GetMaxLoadTypeLevel (mem t' p) = expected_level d (live_guards es gs')"
        using Cons.IH rest l by blast
      then show ?thesis
        using Destruct live gs d by simp
    qed
  qed
qed

text \<open>C5.  Take any sequence of guard constructions and destructions on one thread that
  obeys stack discipline, starting with no guard alive on a thread whose state is set up.
  At every point of the sequence (after any number \<open>n\<close> of its events) the run has
  succeeded so far and the thread's maximum load level is the \<open>newLevel\<close> of the
  innermost guard that is still alive and active, or the level the thread started with
  when no active guard is alive.\<close>

theorem level_is_innermost_live_active_guard:
  assumes "CheckClrDebugState t = Some p" and "lifo 0 evs"
  shows "\<exists>t' live. run K (take n evs) (t, []) = Inr (t', live)
           \<and> GetMaxLoadTypeLevel (mem t' p)
               = expected_level (GetMaxLoadTypeLevel (mem t p)) (live_guards (take n evs) [])"
proof -
  have "lifo (length ([] :: ('a, 'b) LoadsTypeHolder list)) (take n evs)"
    using assms(2) by (simp add: lifo_take)
  from run_level [OF assms(1) _ _ this, of "GetMaxLoadTypeLevel (mem t p)" "[]" K]
  show ?thesis by auto
qed

text \<open>The first scenario of section 8, observed after each of its four events: the limit
  goes from 5 to 3, to 6, back to 3 and back to 5.\<close>

theorem level_is_innermost_witness:
  "lifo 0 sample_events
   \<and> (\<exists>t' live. run sample_contract_h (take 1 sample_events) (sample_thread 5 0, [])
          = Inr (t', live) \<and> GetMaxLoadTypeLevel (mem t' 0) = 3)
   \<and> (\<exists>t' live. run sample_contract_h (take 2 sample_events) (sample_thread 5 0, [])
          = Inr (t', live) \<and> GetMaxLoadTypeLevel (mem t' 0) = 6)
   \<and> (\<exists>t' live. run sample_contract_h (take 3 sample_events) (sample_thread 5 0, [])
          = Inr (t', live) \<and> GetMaxLoadTypeLevel (mem t' 0) = 3)
   \<and> (\<exists>t' live. run sample_contract_h (take 4 sample_events) (sample_thread 5 0, [])
          = Inr (t', live) \<and> GetMaxLoadTypeLevel (mem t' 0) = 5)"
proof -
  have b: "lifo 0 sample_events"
    by (simp add: sample_events_def)
  have t1: "take 1 sample_events = [Construct sample_storage 1 3 1 ''LoadA'' ''loader.cpp'' 7]"
    by (simp add: sample_events_def)
  have t2: "take 2 sample_events = [Construct sample_storage 1 3 1 ''LoadA'' ''loader.cpp'' 7,
      Construct sample_storage 1 6 1 ''LoadB'' ''loader.cpp'' 42]"
    by (simp add: sample_events_def numeral_2_eq_2)
  have t3: "take 3 sample_events = [Construct sample_storage 1 3 1 ''LoadA'' ''loader.cpp'' 7,
      Construct sample_storage 1 6 1 ''LoadB'' ''loader.cpp'' 42, Destruct]"
    by (simp add: sample_events_def numeral_3_eq_3)
  have t4: "take 4 sample_events = sample_events"
    by (simp add: sample_events_def)
  have l: "GetMaxLoadTypeLevel (mem (sample_thread 5 0) 0) = 5"
    by (simp add: GetMaxLoadTypeLevel_def sample_thread_def sample_state_def)
  have "\<exists>t' live. run sample_contract_h (take 1 sample_events) (sample_thread 5 0, [])
          = Inr (t', live) \<and> GetMaxLoadTypeLevel (mem t' 0) = 3"
    using level_is_innermost_live_active_guard
      [OF check_sample_thread b, where K = sample_contract_h and n = 1
        and level1 = 5 and vmask1 = 0]
    unfolding t1 l by simp
  moreover have "\<exists>t' live. run sample_contract_h (take 2 sample_events) (sample_thread 5 0, [])
          = Inr (t', live) \<and> GetMaxLoadTypeLevel (mem t' 0) = 6"
    using level_is_innermost_live_active_guard
      [OF check_sample_thread b, where K = sample_contract_h and n = 2
        and level1 = 5 and vmask1 = 0]
    unfolding t2 l by simp
  moreover have "\<exists>t' live. run sample_contract_h (take 3 sample_events) (sample_thread 5 0, [])
          = Inr (t', live) \<and> GetMaxLoadTypeLevel (mem t' 0) = 3"
    using level_is_innermost_live_active_guard
      [OF check_sample_thread b, where K = sample_contract_h and n = 3
        and level1 = 5 and vmask1 = 0]
    unfolding t3 l by simp
  moreover have "\<exists>t' live. run sample_contract_h (take 4 sample_events) (sample_thread 5 0, [])
          = Inr (t', live) \<and> GetMaxLoadTypeLevel (mem t' 0) = 5"
    using level_is_innermost_live_active_guard
      [OF check_sample_thread b, where K = sample_contract_h and n = 4
        and level1 = 5 and vmask1 = 0]
    unfolding t4 l by (simp add: sample_events_def)
  ultimately show ?thesis using b by blast
qed

end
